theory Spec2Isabelle
  imports Main "HOL-Library.AList"
begin

section \<open>JavaScript values\<close>

text \<open>
  The values that model instances, JSON data and defaults are made of. An object is an
  association list in property order; a lookup reads the first binding of a key and an
  assignment (\<open>AList.update\<close>) replaces a binding in place or appends a new one, as
  property assignment does. \<open>JDate s\<close> stands for the Date object \<open>new Date(s)\<close>.
  Numbers are integers (the depth counters and sample values of this development), class
  instances and plain objects are both \<open>JObj\<close> (lodash's \<open>toPlainObject\<close>, \<open>clone\<close>
  and \<open>merge\<close> onto a fresh instance keep the own properties), and inherited prototype
  members are not part of a value.
\<close>

datatype jsval =
    JUndefined
  | JNull
  | JBool bool
  | JNum int
  | JStr string
  | JDate string
  | JArr "jsval list"
  | JObj "(string \<times> jsval) list"

type_synonym obj = "(string \<times> jsval) list"

text \<open>A model constructor (a class extending \<open>Model\<close>) is identified by its name.\<close>

type_synonym ctor = string

text \<open>\<open>_.isNil\<close>, \<open>_.isArray\<close>, \<open>typeof v === 'string'\<close> and JavaScript truthiness.\<close>

fun isNil :: "jsval \<Rightarrow> bool" where
  "isNil JUndefined = True"
| "isNil JNull = True"
| "isNil _ = False"

fun isArray :: "jsval \<Rightarrow> bool" where
  "isArray (JArr _) = True"
| "isArray _ = False"

fun isString :: "jsval \<Rightarrow> bool" where
  "isString (JStr _) = True"
| "isString _ = False"

fun isDate :: "jsval \<Rightarrow> bool" where
  "isDate (JDate _) = True"
| "isDate _ = False"

fun truthy :: "jsval \<Rightarrow> bool" where
  "truthy JUndefined = False"
| "truthy JNull = False"
| "truthy (JBool b) = b"
| "truthy (JNum n) = (n \<noteq> 0)"
| "truthy (JStr s) = (s \<noteq> [])"
| "truthy _ = True"

section \<open>Errors\<close>

text \<open>
  Everything the code can throw. \<open>PropertyValidationError type message\<close> is what a type
  validator or a decorated validation throws; \<open>ValidationError model message errors\<close> is
  what \<open>validate\<close> throws; \<open>Error message\<close> is a plain error (the definition error of an
  unresolved association target is one); \<open>TypeError\<close> is the engine's error on reading a
  property of \<open>null\<close> or \<open>undefined\<close>.
\<close>

type_synonym attr_error = "string \<times> string"

type_synonym ModelErrors = "(string \<times> attr_error list) list"

datatype js_error =
    PropertyValidationError string string
  | ValidationError ctor string ModelErrors
  | Error string
  | TypeError string

fun message :: "js_error \<Rightarrow> string" where
  "message (PropertyValidationError t m) = m"
| "message (ValidationError c m es) = m"
| "message (Error m) = m"
| "message (TypeError m) = m"

fun isValidationError :: "js_error \<Rightarrow> bool" where
  "isValidationError (ValidationError c m es) = True"
| "isValidationError _ = False"

section \<open>Metadata: attributes, associations, decorated validations\<close>

text \<open>
  The descriptors that the metadata module hands to the model class. The registries
  themselves (\<open>getAttributes\<close>, \<open>getAssociations\<close>, \<open>getAttributeValidations\<close>) and the
  \<open>DATE\<close> attribute type live in other modules; they are parameters of every function
  below, collected in the record \<open>metadata\<close>. A registry is an object keyed by property
  name, here an association list in key order.

  A validator is a function that returns \<open>None\<close> when it resolves and \<open>Some e\<close> when it
  throws (or rejects with) \<open>e\<close>. A lazily loaded default or target is represented by the
  value its resolver returns.
\<close>

type_synonym validator = "string \<Rightarrow> jsval \<Rightarrow> js_error option"

record attribute_type =
  type_tag :: string
  type_validate :: "validator option"

datatype default_value = Plain jsval | LazyDefault jsval

record attribute =
  attr_type :: attribute_type
  defaultValue :: default_value
  optional :: bool

datatype association_type = HAS_ONE | BELONGS_TO | HAS_MANY | BELONGS_TO_MANY

datatype target_ref = Direct "ctor option" | LazyTarget "ctor option"

record association =
  assoc_type :: association_type
  target :: target_ref

record validation =
  cb :: "string \<Rightarrow> jsval \<Rightarrow> jsval \<Rightarrow> js_error option"
  options :: jsval

record metadata =
  getAttributes :: "ctor \<Rightarrow> (string \<times> attribute) list"
  getAssociations :: "ctor \<Rightarrow> (string \<times> association) list"
  getAttributeValidations :: "ctor \<Rightarrow> string \<Rightarrow> validation list"
  DATE :: attribute_type

text \<open>\<open>isLazyLoad\<close> on a default value, the resolution of a default, and its truthiness
  (a resolver function is always truthy).\<close>

fun isLazyLoad :: "default_value \<Rightarrow> bool" where
  "isLazyLoad (LazyDefault v) = True"
| "isLazyLoad (Plain v) = False"

fun resolve_default :: "default_value \<Rightarrow> jsval" where
  "resolve_default (LazyDefault v) = v"
| "resolve_default (Plain v) = v"

fun default_truthy :: "default_value \<Rightarrow> bool" where
  "default_truthy (LazyDefault v) = True"
| "default_truthy (Plain v) = truthy v"

text \<open>The target of an association after the \<open>isLazyLoad\<close> step: \<open>None\<close> is a falsy
  (undefined) constructor.\<close>

fun resolve_target :: "target_ref \<Rightarrow> ctor option" where
  "resolve_target (LazyTarget t) = t"
| "resolve_target (Direct t) = t"

section \<open>Property access and the lodash helpers\<close>

fun digit_char :: "nat \<Rightarrow> char" where
  "digit_char n = char_of (48 + n)"

fun index_name :: "nat \<Rightarrow> string" where
  "index_name n = (if n < 10 then [digit_char n] else index_name (n div 10) @ [digit_char (n mod 10)])"

text \<open>\<open>_.toPlainObject\<close>: the own enumerable properties of a value as a plain object.
  An array or a string contributes its index properties, other primitives and dates none.\<close>

fun toPlainObject :: "jsval \<Rightarrow> obj" where
  "toPlainObject (JObj fs) = fs"
| "toPlainObject (JArr xs) = zip (map index_name [0 ..< length xs]) xs"
| "toPlainObject (JStr s) = zip (map index_name [0 ..< length s]) (map (\<lambda>c. JStr [c]) s)"
| "toPlainObject _ = []"

text \<open>\<open>v[key]\<close>: a \<open>TypeError\<close> on \<open>null\<close> and \<open>undefined\<close>, otherwise the own property
  (including \<open>length\<close> of arrays and strings) or \<open>undefined\<close>.\<close>

fun get_prop :: "jsval \<Rightarrow> string \<Rightarrow> js_error + jsval" where
  "get_prop JUndefined key = Inl (TypeError ''Cannot read properties of undefined'')"
| "get_prop JNull key = Inl (TypeError ''Cannot read properties of null'')"
| "get_prop (JArr xs) key =
     (if key = ''length'' then Inr (JNum (int (length xs)))
      else Inr (case map_of (toPlainObject (JArr xs)) key of None \<Rightarrow> JUndefined | Some v \<Rightarrow> v))"
| "get_prop (JStr s) key =
     (if key = ''length'' then Inr (JNum (int (length s)))
      else Inr (case map_of (toPlainObject (JStr s)) key of None \<Rightarrow> JUndefined | Some v \<Rightarrow> v))"
| "get_prop v key =
     Inr (case map_of (toPlainObject v) key of None \<Rightarrow> JUndefined | Some v \<Rightarrow> v)"

text \<open>\<open>this[key]\<close> on an instance, which is always an object.\<close>

definition get_field :: "obj \<Rightarrow> string \<Rightarrow> jsval" where
  "get_field fs key = (case map_of fs key of None \<Rightarrow> JUndefined | Some v \<Rightarrow> v)"

text \<open>\<open>Object.keys\<close> of a registry.\<close>

definition Object_keys :: "(string \<times> 'a) list \<Rightarrow> string list" where
  "Object_keys al = map fst al"

subsection \<open>Property paths and \<open>_.pick\<close>\<close>

text \<open>
  \<open>_.pick(object, paths)\<close> of lodash 4.17.21 takes property paths. A path string
  made of word characters only, one without path syntax, or one that is an own property
  of \<open>object\<close> is a single key (\<open>isKey\<close>); any other string is split by
  \<open>stringToPath\<close> at dots and bracket groups. For every path that \<open>hasIn\<close> finds in
  the object, \<open>baseGet\<close> reads the value and \<open>baseSet\<close> writes it into the result
  along the path, creating an object (an array before an index) wherever the result
  holds no object yet.

  The regular expressions of lodash are written out as scanners over the characters:
  \<open>reIsPlainProp\<close> (word characters only), \<open>reIsDeepProp\<close> (a dot, or a bracket group:
  brackets around text without brackets or around a quoted string), \<open>rePropName\<close> (a
  run of characters other than dot and brackets, a bracket group around a number or a
  quoted string, or the empty key between two separators) and \<open>reEscapeChar\<close> (a
  backslash before a character of a quoted key). Values are trees: an object reached
  through the result is a copy, so a write of \<open>baseSet\<close> does not reach the object it
  was picked from; arrays are dense (a hole is \<open>undefined\<close>) and keep no named
  properties, and the \<open>RangeError\<close> of a write of a non-number to the \<open>length\<close> of an
  array is left out. None of this arises for the names of \<open>plain_name\<close> below.
\<close>

definition word_char :: "char \<Rightarrow> bool" where
  "word_char c \<longleftrightarrow>
     c \<in> set ''abcdefghijklmnopqrstuvwxyzABCDEFGHIJKLMNOPQRSTUVWXYZ0123456789_''"

definition is_digit :: "char \<Rightarrow> bool" where
  "is_digit c \<longleftrightarrow> c \<in> set ''0123456789''"

definition reIsPlainProp :: "string \<Rightarrow> bool" where
  "reIsPlainProp s \<longleftrightarrow> list_all word_char s"

text \<open>After an opening bracket: text without brackets up to the closing bracket, and
  the quoted alternative, whose body ends at the first quote that no backslash escapes
  (a backslash takes the next character with it, unless that is a line break).\<close>

fun bracket_plain :: "string \<Rightarrow> bool" where
  "bracket_plain [] = False"
| "bracket_plain (c # cs) =
     (if c = CHR '']'' then True else if c = CHR ''['' then False else bracket_plain cs)"

fun quoted_body :: "char \<Rightarrow> string \<Rightarrow> (string \<times> string) option" where
  "quoted_body q [] = None"
| "quoted_body q (c # cs) =
     (if c = q then Some ([], cs)
      else if c = CHR 0x5C then
        (case cs of
           [] \<Rightarrow> None
         | d # ds \<Rightarrow>
             if d = CHR 0x0A \<or> d = CHR 0x0D then None
             else map_option (\<lambda>(body, rest). (c # d # body, rest)) (quoted_body q ds))
      else map_option (\<lambda>(body, rest). (c # body, rest)) (quoted_body q cs))"

definition bracket_quoted :: "string \<Rightarrow> bool" where
  "bracket_quoted t =
     (case t of
        [] \<Rightarrow> False
      | q # rest \<Rightarrow>
          (q = CHR 0x22 \<or> q = CHR 0x27) \<and>
          (case quoted_body q rest of
             None \<Rightarrow> False
           | Some (body, r) \<Rightarrow> (case r of [] \<Rightarrow> False | e # r' \<Rightarrow> e = CHR '']'')))"

fun reIsDeepProp :: "string \<Rightarrow> bool" where
  "reIsDeepProp [] = False"
| "reIsDeepProp (c # cs) =
     (c = CHR ''.'' \<or> (c = CHR ''['' \<and> (bracket_plain cs \<or> bracket_quoted cs)) \<or> reIsDeepProp cs)"

definition isKey :: "string \<Rightarrow> obj \<Rightarrow> bool" where
  "isKey v object \<longleftrightarrow> reIsPlainProp v \<or> \<not> reIsDeepProp v \<or> map_of object v \<noteq> None"

text \<open>The key of a quoted group: every backslash is dropped, and of two backslashes
  in a row the second is kept.\<close>

fun unescape :: "string \<Rightarrow> string" where
  "unescape [] = []"
| "unescape (c # cs) =
     (if c = CHR 0x5C
      then (case cs of [] \<Rightarrow> [] | d # ds \<Rightarrow> if d = CHR 0x5C then d # unescape ds else unescape cs)
      else c # unescape cs)"

text \<open>The two bracket groups of \<open>rePropName\<close>, on the text after the opening bracket:
  the key and the number of characters matched after the bracket.\<close>

definition bracket_number :: "string \<Rightarrow> (string \<times> nat) option" where
  "bracket_number t =
     (let sign = (case t of [] \<Rightarrow> [] | c # r \<Rightarrow> if c = CHR ''-'' then [c] else []);
          r0 = drop (length sign) t;
          ds = takeWhile is_digit r0;
          r1 = dropWhile is_digit r0
      in if ds = [] then None
         else (case r1 of
                 [] \<Rightarrow> None
               | c # r2 \<Rightarrow>
                   if c = CHR '']'' then Some (sign @ ds, length sign + length ds + 1)
                   else if c = CHR ''.'' then
                     (let fs = takeWhile is_digit r2; r3 = dropWhile is_digit r2
                      in if fs \<noteq> [] \<and> (case r3 of [] \<Rightarrow> False | e # r4 \<Rightarrow> e = CHR '']'')
                         then Some (sign @ ds @ [c] @ fs, length sign + length ds + length fs + 2)
                         else None)
                   else None))"

definition bracket_string :: "string \<Rightarrow> (string \<times> nat) option" where
  "bracket_string t =
     (case t of
        [] \<Rightarrow> None
      | q # rest \<Rightarrow>
          if q = CHR 0x22 \<or> q = CHR 0x27
          then (case quoted_body q rest of
                  None \<Rightarrow> None
                | Some (body, r) \<Rightarrow>
                    (case r of
                       [] \<Rightarrow> None
                     | e # r' \<Rightarrow> if e = CHR '']'' then Some (unescape body, length body + 3) else None))
          else None)"

text \<open>The empty match of \<open>rePropName\<close>: a dot or \<open>[]\<close> followed by a dot, \<open>[]\<close>
  or the end of the string.\<close>

definition separator_or_end :: "string \<Rightarrow> bool" where
  "separator_or_end t \<longleftrightarrow> t = [] \<or> take 1 t = ''.'' \<or> take 2 t = ''[]''"

definition empty_key_here :: "string \<Rightarrow> bool" where
  "empty_key_here t \<longleftrightarrow>
     (take 1 t = ''.'' \<and> separator_or_end (drop 1 t)) \<or>
     (take 2 t = ''[]'' \<and> separator_or_end (drop 2 t))"

text \<open>The global match of \<open>rePropName\<close>, from left to right: \<open>acc\<close> is the run of
  ordinary characters read so far, \<open>skip\<close> the characters still covered by the last
  bracket group. After an empty match the search goes on one character further.\<close>

fun rePropName_scan :: "string \<Rightarrow> nat \<Rightarrow> string \<Rightarrow> string list" where
  "rePropName_scan acc skip [] = (if acc = [] then [] else [acc])"
| "rePropName_scan acc skip (c # cs) =
     (if skip > 0 then rePropName_scan acc (skip - 1) cs
      else if c \<noteq> CHR ''.'' \<and> c \<noteq> CHR ''['' \<and> c \<noteq> CHR '']'' then rePropName_scan (acc @ [c]) 0 cs
      else (if acc = [] then [] else [acc]) @
           (case (if c = CHR ''[''
                  then (case bracket_number cs of Some m \<Rightarrow> Some m | None \<Rightarrow> bracket_string cs)
                  else None) of
              Some (key, n) \<Rightarrow> key # rePropName_scan [] n cs
            | None \<Rightarrow>
                if empty_key_here (c # cs) then [] # rePropName_scan [] 0 cs
                else rePropName_scan [] 0 cs))"

definition stringToPath :: "string \<Rightarrow> string list" where
  "stringToPath s = (if take 1 s = ''.'' then [[]] else []) @ rePropName_scan [] 0 s"

definition castPath :: "string \<Rightarrow> obj \<Rightarrow> string list" where
  "castPath v object = (if isKey v object then [v] else stringToPath v)"

text \<open>\<open>key in Object(v)\<close> and \<open>v[key]\<close> for a value that is not nil.\<close>

definition has_prop :: "jsval \<Rightarrow> string \<Rightarrow> bool" where
  "has_prop v key =
     (case v of
        JObj fs \<Rightarrow> map_of fs key \<noteq> None
      | JArr xs \<Rightarrow> key = ''length'' \<or> map_of (toPlainObject v) key \<noteq> None
      | JStr s \<Rightarrow> key = ''length'' \<or> map_of (toPlainObject v) key \<noteq> None
      | _ \<Rightarrow> False)"

definition read_prop :: "jsval \<Rightarrow> string \<Rightarrow> jsval" where
  "read_prop v key = (case get_prop v key of Inl e \<Rightarrow> JUndefined | Inr x \<Rightarrow> x)"

text \<open>\<open>baseGet\<close> and \<open>hasIn\<close> on a path that is already cast. The last step of
  \<open>hasPath\<close>, for an index in a hole of a sparse array, never applies to a dense
  array.\<close>

fun baseGet_walk :: "jsval \<Rightarrow> string list \<Rightarrow> jsval" where
  "baseGet_walk object [] = object"
| "baseGet_walk object (key # rest) =
     (if isNil object then JUndefined else baseGet_walk (read_prop object key) rest)"

definition baseGet :: "jsval \<Rightarrow> string list \<Rightarrow> jsval" where
  "baseGet object path = (if path = [] then JUndefined else baseGet_walk object path)"

fun hasPath_walk :: "jsval \<Rightarrow> string list \<Rightarrow> bool" where
  "hasPath_walk object [] = True"
| "hasPath_walk object (key # rest) =
     (\<not> isNil object \<and> has_prop object key \<and> hasPath_walk (read_prop object key) rest)"

definition hasIn :: "jsval \<Rightarrow> string list \<Rightarrow> bool" where
  "hasIn object path \<longleftrightarrow> \<not> isNil object \<and> path \<noteq> [] \<and> hasPath_walk object path"

text \<open>\<open>isIndex(key)\<close>: a decimal numeral without a leading zero, below
  \<open>MAX_SAFE_INTEGER\<close>.\<close>

definition decimal :: "string \<Rightarrow> int" where
  "decimal s = foldl (\<lambda>n c. 10 * n + (of_char c - 48)) 0 s"

definition isIndex :: "string \<Rightarrow> bool" where
  "isIndex key \<longleftrightarrow>
     (key = ''0'' \<or> (key \<noteq> [] \<and> hd key \<noteq> CHR ''0'' \<and> list_all is_digit key)) \<and>
     decimal key < 9007199254740991"

fun isObject :: "jsval \<Rightarrow> bool" where
  "isObject (JObj fs) = True"
| "isObject (JArr xs) = True"
| "isObject (JDate s) = True"
| "isObject _ = False"

text \<open>\<open>assignValue(nested, key, value)\<close> on an object or an array: an index extends
  the array, a number under \<open>length\<close> cuts or extends it, and any other write to an array
  leaves it as it is.\<close>

fun assign :: "jsval \<Rightarrow> string \<Rightarrow> jsval \<Rightarrow> jsval" where
  "assign (JObj fs) key v = JObj (AList.update key v fs)"
| "assign (JArr xs) key v =
     (if isIndex key
      then (if nat (decimal key) < length xs then JArr (xs[nat (decimal key) := v])
            else JArr (xs @ replicate (nat (decimal key) - length xs) JUndefined @ [v]))
      else if key = ''length''
      then (case v of
              JNum n \<Rightarrow> if 0 \<le> n then JArr (take (nat n) xs @ replicate (nat n - length xs) JUndefined)
                        else JArr xs
            | _ \<Rightarrow> JArr xs)
      else JArr xs)"
| "assign nested key v = nested"

text \<open>\<open>baseSet\<close>: it stops at a key \<open>__proto__\<close>, \<open>constructor\<close> or
  \<open>prototype\<close>, keeping what it has created so far.\<close>

fun baseSet_walk :: "jsval \<Rightarrow> string list \<Rightarrow> jsval \<Rightarrow> jsval" where
  "baseSet_walk nested [] v = nested"
| "baseSet_walk nested (key # rest) v =
     (if key = ''__proto__'' \<or> key = ''constructor'' \<or> key = ''prototype'' then nested
      else if rest = [] then assign nested key v
      else
        (let objValue = read_prop nested key;
             newValue = (if isObject objValue then objValue
                         else if isIndex (hd rest) then JArr [] else JObj [])
         in assign nested key (baseSet_walk newValue rest v)))"

definition baseSet :: "obj \<Rightarrow> string list \<Rightarrow> jsval \<Rightarrow> obj" where
  "baseSet object path v = toPlainObject (baseSet_walk (JObj object) path v)"

text \<open>One round of the loop of \<open>basePickBy\<close>, and \<open>_.pick\<close>.\<close>

definition pick_path :: "obj \<Rightarrow> obj \<Rightarrow> string \<Rightarrow> obj" where
  "pick_path object result path =
     (let p = castPath path object;
          v = baseGet (JObj object) p
      in if hasIn (JObj object) p then baseSet result p v else result)"

definition pick :: "obj \<Rightarrow> string list \<Rightarrow> obj" where
  "pick object paths = foldl (pick_path object) [] paths"

text \<open>A name that \<open>_.pick\<close> treats as the one key it spells, whatever the object: no
  path syntax (no dot and no bracket group), and none of the keys that \<open>baseSet\<close>
  refuses to write.\<close>

definition plain_name :: "string \<Rightarrow> bool" where
  "plain_name key \<longleftrightarrow>
     \<not> reIsDeepProp key \<and> key \<noteq> ''__proto__'' \<and> key \<noteq> ''constructor'' \<and> key \<noteq> ''prototype''"

section \<open>Validation\<close>

text \<open>
  \<open>coerceError\<close> yields the \<open>type\<close> and \<open>message\<close> fields of the coerced error, which is
  all that \<open>validate\<close> reads from it.
\<close>

fun coerceError :: "js_error \<Rightarrow> attr_error" where
  "coerceError (PropertyValidationError t m) = (t, m)"
| "coerceError err = (''unknown'', message err)"

text \<open>
  The calls that \<open>validate\<close> makes to validators are recorded next to the errors, so that
  statements about which validator runs, and with which value, can be made: \<open>TypeCall\<close> is
  \<open>attr.type.validate(key, value)\<close> and \<open>RuleCall\<close> is \<open>validation.cb(key, value,
  validation.options)\<close>.
\<close>

datatype call = TypeCall string jsval | RuleCall string jsval jsval

record ValidationOptions =
  required :: "bool option"

definition default_ValidationOptions :: ValidationOptions where
  "default_ValidationOptions = \<lparr>required = None\<rparr>"

text \<open>\<open>options.required\<close> after the default \<open>{required: true}\<close> has been merged under
  the caller's options.\<close>

definition option_required :: "ValidationOptions \<Rightarrow> bool" where
  "option_required opts = (case required opts of None \<Rightarrow> True | Some r \<Rightarrow> r)"


text \<open>The loop over the decorated validations of one attribute: every rule is tried, a
  failure is coerced and pushed.\<close>

fun run_validations :: "string \<Rightarrow> jsval \<Rightarrow> validation list \<Rightarrow> call list \<times> attr_error list" where
  "run_validations key v [] = ([], [])"
| "run_validations key v (validation # rest) =
     (let (calls, errs) = run_validations key v rest
      in (RuleCall key v (options validation) # calls,
          (case cb validation key v (options validation) of
             None \<Rightarrow> errs
           | Some err \<Rightarrow> coerceError err # errs)))"

text \<open>The type validation step of \<open>model.ts\<close>, with the substitution of the default for a
  nil value.\<close>

definition type_validation :: "string \<Rightarrow> attribute \<Rightarrow> jsval \<Rightarrow> jsval \<times> call list \<times> attr_error list" where
  "type_validation key attr v =
     (case type_validate (attr_type attr) of
        None \<Rightarrow> (v, [], [])
      | Some f \<Rightarrow>
          (let v' = (if isNil v \<and> default_truthy (defaultValue attr)
                     then resolve_default (defaultValue attr) else v)
           in (v', [TypeCall key v'],
               (case f key v' of None \<Rightarrow> [] | Some err \<Rightarrow> [coerceError err]))))"

text \<open>
  One iteration of the loop of \<open>validate\<close> in \<open>model.ts\<close>: \<open>None\<close> is the early
  \<open>continue\<close> for a nil value of an optional attribute or with required checks off;
  otherwise the calls made and the errors collected in \<open>attrErrors\<close>.
\<close>

definition validate_attr ::
  "bool \<Rightarrow> string \<Rightarrow> attribute \<Rightarrow> validation list \<Rightarrow> jsval \<Rightarrow> (call list \<times> attr_error list) option" where
  "validate_attr req key attr validations v =
     (if isNil v \<and> (optional attr \<or> \<not> req) then None
      else
        (let attrErrors = (if isNil v then [(''attribute.required'', ''Value is required'')] else []);
             (v', tcalls, terrs) = type_validation key attr v;
             (rcalls, rerrs) = run_validations key v' validations
         in Some (tcalls @ rcalls, attrErrors @ terrs @ rerrs)))"

text \<open>\<open>errors[key] = (errors[key] || []).concat(attrErrors)\<close>.\<close>

definition add_errors :: "ModelErrors \<Rightarrow> string \<Rightarrow> attr_error list \<Rightarrow> ModelErrors" where
  "add_errors errors key attrErrors =
     AList.update key ((case map_of errors key of None \<Rightarrow> [] | Some es \<Rightarrow> es) @ attrErrors) errors"

text \<open>The loop over \<open>Object.keys(attrs)\<close>, threading the report and the calls made.\<close>

fun validate_loop ::
  "metadata \<Rightarrow> ctor \<Rightarrow> obj \<Rightarrow> bool \<Rightarrow> (string \<times> attribute) list \<Rightarrow> call list \<times> ModelErrors
     \<Rightarrow> call list \<times> ModelErrors" where
  "validate_loop md this inst req [] st = st"
| "validate_loop md this inst req ((key, attr) # rest) (calls, errors) =
     (case validate_attr req key attr (getAttributeValidations md this key) (get_field inst key) of
        None \<Rightarrow> validate_loop md this inst req rest (calls, errors)
      | Some (cs, attrErrors) \<Rightarrow>
          if length attrErrors < 1
          then validate_loop md this inst req rest (calls @ cs, errors)
          else validate_loop md this inst req rest (calls @ cs, add_errors errors key attrErrors))"

text \<open>\<open>Model.validate\<close> of \<open>model.ts\<close> on an instance of class \<open>this\<close>, with the calls
  it made. \<open>validate\<close> is the result alone.\<close>

definition validate_traced ::
  "metadata \<Rightarrow> ctor \<Rightarrow> obj \<Rightarrow> ValidationOptions \<Rightarrow> call list \<times> (js_error + unit)" where
  "validate_traced md this inst opts =
     (let req = option_required opts;
          attrs = getAttributes md this;
          (calls, errors) = validate_loop md this inst req attrs ([], [])
      in (calls,
          if length (Object_keys errors) > 0
          then Inl (ValidationError this ''Validation error'' errors)
          else Inr ()))"

definition validate :: "metadata \<Rightarrow> ctor \<Rightarrow> obj \<Rightarrow> ValidationOptions \<Rightarrow> js_error + unit" where
  "validate md this inst opts = snd (validate_traced md this inst opts)"

subsection \<open>The variant without associations\<close>




section \<open>Serialization\<close>

record SerializeOptions =
  associations :: "bool option"
  depth :: "int option"

record DeserializeOptions = SerializeOptions +
  opt_validate :: "bool option"

text \<open>The option values after the defaults \<open>{associations: true, depth: 1, validate: true}\<close>
  have been merged under the caller's options; an absent property is \<open>None\<close>.\<close>

definition option_depth :: "'a SerializeOptions_scheme \<Rightarrow> int" where
  "option_depth opts = (case depth opts of None \<Rightarrow> 1 | Some d \<Rightarrow> d)"

definition option_associations :: "'a SerializeOptions_scheme \<Rightarrow> bool" where
  "option_associations opts = (case associations opts of None \<Rightarrow> True | Some a \<Rightarrow> a)"

definition option_validate :: "DeserializeOptions \<Rightarrow> bool" where
  "option_validate opts = (case opt_validate opts of None \<Rightarrow> True | Some v \<Rightarrow> v)"

text \<open>\<open>Promise.all\<close> over the mapped elements: the results in order, or an error when
  some element fails. \<open>Promise.all\<close> rejects with the error of the element that fails
  first in time; here the elements run one after the other, so of several failing
  elements the first in list order gives the error. Whether the call fails is the same
  either way, and no statement below depends on which of several errors it is.\<close>

fun sequence :: "(js_error + 'a) list \<Rightarrow> js_error + 'a list" where
  "sequence [] = Inr []"
| "sequence (Inl e # rs) = Inl e"
| "sequence (Inr x # rs) = (case sequence rs of Inl e \<Rightarrow> Inl e | Inr xs \<Rightarrow> Inr (x # xs))"

text \<open>
  The static \<open>Model.serialize\<close> of \<open>model.ts\<close>, called on the class \<open>this\<close>, and its
  loop over \<open>Object.keys(assocs)\<close>. The loop runs only when \<open>assocOptions.associations\<close>
  holds, so the options of a nested call are \<open>{associations: true, depth: assocDepth}\<close>,
  where \<open>assocDepth\<close> is \<open>assocOptions.depth\<close>. The result is the plain object returned.
\<close>

function serialize :: "metadata \<Rightarrow> ctor \<Rightarrow> jsval \<Rightarrow> SerializeOptions \<Rightarrow> js_error + obj"
  and serialize_assocs ::
    "metadata \<Rightarrow> (string \<times> association) list \<Rightarrow> jsval \<Rightarrow> int \<Rightarrow> obj \<Rightarrow> js_error + obj"
where
  "serialize md this instance opts =
     (let assocDepth = option_depth opts - 1;
          attrs = getAttributes md this;
          assocs = getAssociations md this;
          result = pick (toPlainObject instance) (Object_keys attrs)
      in if option_associations opts
         then serialize_assocs md assocs instance assocDepth result
         else Inr result)"
| "serialize_assocs md [] instance assocDepth result = Inr result"
| "serialize_assocs md ((key, assoc) # rest) instance assocDepth result =
     (case get_prop instance key of
        Inl e \<Rightarrow> Inl e
      | Inr v \<Rightarrow>
          if isNil v then serialize_assocs md rest instance assocDepth result
          else
            (case resolve_target (target assoc) of
               None \<Rightarrow>
                 Inl (Error (''Cannot serialize because association '' @ key @ '' is not defined''))
             | Some tgt \<Rightarrow>
                 if assocDepth \<ge> 0
                 then
                   if assoc_type assoc = HAS_MANY \<or> assoc_type assoc = BELONGS_TO_MANY
                   then
                     (case v of
                        JArr items \<Rightarrow>
                          (case sequence (map (\<lambda>item. serialize md tgt item
                                   \<lparr>associations = Some True, depth = Some assocDepth\<rparr>) items) of
                             Inl e \<Rightarrow> Inl e
                           | Inr rs \<Rightarrow> serialize_assocs md rest instance assocDepth
                                         (AList.update key (JArr (map JObj rs)) result))
                      | _ \<Rightarrow> serialize_assocs md rest instance assocDepth
                                         (AList.update key (JArr []) result))
                   else
                     (case serialize md tgt v \<lparr>associations = Some True, depth = Some assocDepth\<rparr> of
                        Inl e \<Rightarrow> Inl e
                      | Inr r \<Rightarrow> serialize_assocs md rest instance assocDepth
                                   (AList.update key (JObj r) result))
                 else serialize_assocs md rest instance assocDepth result))"
  by pat_completeness auto
termination
  by (relation "measures [
        (\<lambda>x. case x of Inl (md, this, instance, opts) \<Rightarrow> nat (option_depth opts + 1)
                      | Inr (md, assocs, instance, assocDepth, result) \<Rightarrow> nat (assocDepth + 2)),
        (\<lambda>x. case x of Inl _ \<Rightarrow> 1 | Inr _ \<Rightarrow> 0),
        (\<lambda>x. case x of Inl _ \<Rightarrow> 0
                      | Inr (md, assocs, instance, assocDepth, result) \<Rightarrow> length assocs)]")
     (auto simp: option_depth_def)

section \<open>Deserialization\<close>

text \<open>
  \<open>new this(data, {defaults: false})\<close>: the loop over the defaults is skipped, and
  \<open>_.merge(this, data)\<close> onto the fresh instance gives it a copy of every property of
  \<open>data\<close>.
\<close>

definition Model_new :: "obj \<Rightarrow> obj" where
  "Model_new data = data"

text \<open>The conversion of ISO strings under date attributes: the loop over
  \<open>Object.keys(attrs)\<close>.\<close>

fun convert_dates :: "metadata \<Rightarrow> (string \<times> attribute) list \<Rightarrow> obj \<Rightarrow> obj" where
  "convert_dates md [] inst = inst"
| "convert_dates md ((key, attr) # rest) inst =
     convert_dates md rest
       (case get_field inst key of
          JStr s \<Rightarrow>
            if type_tag (attr_type attr) = type_tag (DATE md)
            then AList.update key (JDate s) inst else inst
        | _ \<Rightarrow> inst)"

text \<open>
  The static \<open>Model.deserialize\<close> of \<open>model.ts\<close> and its loop over
  \<open>Object.keys(assocs)\<close>, which reads the association values from \<open>data\<close> and writes the
  deserialized ones onto the instance. The options of a nested call are
  \<open>{validate: v, associations: true, depth: assocDepth}\<close>.
\<close>

function deserialize :: "metadata \<Rightarrow> ctor \<Rightarrow> jsval \<Rightarrow> DeserializeOptions \<Rightarrow> js_error + obj"
  and deserialize_assocs ::
    "metadata \<Rightarrow> (string \<times> association) list \<Rightarrow> obj \<Rightarrow> int \<Rightarrow> bool \<Rightarrow> obj \<Rightarrow> js_error + obj"
where
  "deserialize md this data opts =
     (let assocDepth = option_depth opts - 1;
          data' = toPlainObject data;
          attrs = getAttributes md this;
          assocs = getAssociations md this;
          instance = convert_dates md attrs (Model_new (pick data' (Object_keys attrs)))
      in case (if option_associations opts
               then deserialize_assocs md assocs data' assocDepth (option_validate opts) instance
               else Inr instance) of
           Inl e \<Rightarrow> Inl e
         | Inr instance' \<Rightarrow>
             if option_validate opts
             then (case validate md this instance' default_ValidationOptions of
                     Inl e \<Rightarrow> Inl e
                   | Inr _ \<Rightarrow> Inr instance')
             else Inr instance')"
| "deserialize_assocs md [] data assocDepth v instance = Inr instance"
| "deserialize_assocs md ((key, assoc) # rest) data assocDepth v instance =
     (let val = get_field data key
      in if isNil val then deserialize_assocs md rest data assocDepth v instance
         else
           (case resolve_target (target assoc) of
              None \<Rightarrow>
                Inl (Error (''Cannot deserialize because association '' @ key @ '' is not defined''))
            | Some tgt \<Rightarrow>
                if assocDepth \<ge> 0
                then
                  if assoc_type assoc = HAS_MANY \<or> assoc_type assoc = BELONGS_TO_MANY
                  then
                    (case val of
                       JArr items \<Rightarrow>
                         (case sequence (map (\<lambda>item. deserialize md tgt item
                                  \<lparr>associations = Some True, depth = Some assocDepth,
                                   opt_validate = Some v\<rparr>) items) of
                            Inl e \<Rightarrow> Inl e
                          | Inr rs \<Rightarrow> deserialize_assocs md rest data assocDepth v
                                        (AList.update key (JArr (map JObj rs)) instance))
                     | _ \<Rightarrow> deserialize_assocs md rest data assocDepth v
                                        (AList.update key (JArr []) instance))
                  else
                    (case deserialize md tgt val
                            \<lparr>associations = Some True, depth = Some assocDepth,
                             opt_validate = Some v\<rparr> of
                       Inl e \<Rightarrow> Inl e
                     | Inr r \<Rightarrow> deserialize_assocs md rest data assocDepth v
                                  (AList.update key (JObj r) instance))
                else deserialize_assocs md rest data assocDepth v instance))"
  by pat_completeness auto
termination
  by (relation "measures [
        (\<lambda>x. case x of Inl (md, this, data, opts) \<Rightarrow> nat (option_depth opts + 1)
                      | Inr (md, assocs, data, assocDepth, v, instance) \<Rightarrow> nat (assocDepth + 2)),
        (\<lambda>x. case x of Inl _ \<Rightarrow> 1 | Inr _ \<Rightarrow> 0),
        (\<lambda>x. case x of Inl _ \<Rightarrow> 0
                      | Inr (md, assocs, data, assocDepth, v, instance) \<Rightarrow> length assocs)]")
     (auto simp: option_depth_def)

section \<open>What one attribute contributes\<close>




definition outcome_errors :: "(call list \<times> attr_error list) option \<Rightarrow> attr_error list" where
  "outcome_errors r = (case r of None \<Rightarrow> [] | Some (cs, es) \<Rightarrow> es)"

text \<open>The report that collects the errors of every attribute that has some, in registry
  order.\<close>

definition full_report ::
  "(string \<times> attribute \<Rightarrow> (call list \<times> attr_error list) option) \<Rightarrow> (string \<times> attribute) list
     \<Rightarrow> ModelErrors" where
  "full_report outcome attrs =
     filter (\<lambda>(k, es). es \<noteq> []) (map (\<lambda>ka. (fst ka, outcome_errors (outcome ka))) attrs)"


section \<open>Options left out, and unresolved associations\<close>

text \<open>A call without an options argument.\<close>

definition default_SerializeOptions :: SerializeOptions where
  "default_SerializeOptions = \<lparr>associations = None, depth = None\<rparr>"

definition default_DeserializeOptions :: DeserializeOptions where
  "default_DeserializeOptions = \<lparr>associations = None, depth = None, opt_validate = None\<rparr>"

text \<open>The registered associations, in registry order, that hold a non-nil value in the
  object \<open>fs\<close> while their target resolves to no constructor.\<close>

definition unresolved_assocs :: "obj \<Rightarrow> (string \<times> association) list \<Rightarrow> (string \<times> association) list" where
  "unresolved_assocs fs assocs =
     filter (\<lambda>(key, assoc). \<not> isNil (get_field fs key) \<and> resolve_target (target assoc) = None) assocs"

definition to_many :: "association \<Rightarrow> bool" where
  "to_many assoc \<longleftrightarrow> assoc_type assoc = HAS_MANY \<or> assoc_type assoc = BELONGS_TO_MANY"

text \<open>
  The value that the loop of \<open>serialize\<close> (of \<open>deserialize\<close>) writes under the key of an
  association that it expands: for a to-many association the array of the serialized
  elements, or the empty array when the value is no array; otherwise the serialized value.
\<close>

definition serialize_value :: "metadata \<Rightarrow> association \<Rightarrow> ctor \<Rightarrow> jsval \<Rightarrow> int \<Rightarrow> js_error + jsval" where
  "serialize_value md assoc tgt v assocDepth =
     (if assoc_type assoc = HAS_MANY \<or> assoc_type assoc = BELONGS_TO_MANY
      then (case v of
              JArr items \<Rightarrow>
                (case sequence (map (\<lambda>item. serialize md tgt item
                         \<lparr>associations = Some True, depth = Some assocDepth\<rparr>) items) of
                   Inl e \<Rightarrow> Inl e
                 | Inr rs \<Rightarrow> Inr (JArr (map JObj rs)))
            | _ \<Rightarrow> Inr (JArr []))
      else (case serialize md tgt v \<lparr>associations = Some True, depth = Some assocDepth\<rparr> of
              Inl e \<Rightarrow> Inl e
            | Inr r \<Rightarrow> Inr (JObj r)))"

definition deserialize_value ::
  "metadata \<Rightarrow> association \<Rightarrow> ctor \<Rightarrow> jsval \<Rightarrow> int \<Rightarrow> bool \<Rightarrow> js_error + jsval" where
  "deserialize_value md assoc tgt val assocDepth v =
     (if assoc_type assoc = HAS_MANY \<or> assoc_type assoc = BELONGS_TO_MANY
      then (case val of
              JArr items \<Rightarrow>
                (case sequence (map (\<lambda>item. deserialize md tgt item
                         \<lparr>associations = Some True, depth = Some assocDepth,
                          opt_validate = Some v\<rparr>) items) of
                   Inl e \<Rightarrow> Inl e
                 | Inr rs \<Rightarrow> Inr (JArr (map JObj rs)))
            | _ \<Rightarrow> Inr (JArr []))
      else (case deserialize md tgt val
                   \<lparr>associations = Some True, depth = Some assocDepth, opt_validate = Some v\<rparr> of
              Inl e \<Rightarrow> Inl e
            | Inr r \<Rightarrow> Inr (JObj r)))"

section \<open>A sample registry\<close>

text \<open>
  The models for the concrete instances below. A \<open>User\<close> has a required name with a
  decorated validation, a required date, an optional nickname with a default and a required
  role with a default; a \<open>Comment\<close> belongs to a \<open>User\<close>; a \<open>Post\<close> has many comments
  (through a lazily loaded target) and one association whose lazy target resolves to
  \<open>undefined\<close>. Two models have attribute names with path syntax: \<open>Nested\<close> has the
  one attribute \<open>a.b\<close>, and \<open>Indexed\<close> has the attributes \<open>a\<close> and \<open>a.0\<close>.
\<close>

definition STRING :: attribute_type where
  "STRING = \<lparr>type_tag = ''string'',
     type_validate = Some (\<lambda>key v. if isString v then None
        else Some (PropertyValidationError ''attribute.string'' ''Not a string''))\<rparr>"

definition SAMPLE_DATE :: attribute_type where
  "SAMPLE_DATE = \<lparr>type_tag = ''date'',
     type_validate = Some (\<lambda>key v. if isDate v then None
        else Some (PropertyValidationError ''attribute.date'' ''Not a date''))\<rparr>"

definition not_empty :: validation where
  "not_empty = \<lparr>cb = (\<lambda>key v ropts. if v = JStr [] \<or> isNil v then Some (Error ''Must not be empty'') else None),
     options = JNull\<rparr>"

definition sample_attributes :: "ctor \<Rightarrow> (string \<times> attribute) list" where
  "sample_attributes c =
     (if c = ''User'' then
        [(''name'', \<lparr>attr_type = STRING, defaultValue = Plain JUndefined, optional = False\<rparr>),
         (''joined'', \<lparr>attr_type = SAMPLE_DATE, defaultValue = Plain JUndefined, optional = False\<rparr>),
         (''nick'', \<lparr>attr_type = STRING, defaultValue = Plain (JStr ''anon''), optional = True\<rparr>),
         (''role'', \<lparr>attr_type = STRING, defaultValue = LazyDefault (JStr ''member''), optional = False\<rparr>)]
      else if c = ''Comment'' then
        [(''text'', \<lparr>attr_type = STRING, defaultValue = Plain JUndefined, optional = False\<rparr>)]
      else if c = ''Post'' then
        [(''title'', \<lparr>attr_type = STRING, defaultValue = Plain JUndefined, optional = False\<rparr>)]
      else if c = ''Nested'' then
        [(''a.b'', \<lparr>attr_type = STRING, defaultValue = Plain JUndefined, optional = True\<rparr>)]
      else if c = ''Indexed'' then
        [(''a'', \<lparr>attr_type = STRING, defaultValue = Plain JUndefined, optional = False\<rparr>),
         (''a.0'', \<lparr>attr_type = STRING, defaultValue = Plain JUndefined, optional = True\<rparr>)]
      else [])"

definition sample_associations :: "ctor \<Rightarrow> (string \<times> association) list" where
  "sample_associations c =
     (if c = ''Comment'' then
        [(''author'', \<lparr>assoc_type = BELONGS_TO, target = Direct (Some ''User'')\<rparr>)]
      else if c = ''Post'' then
        [(''comments'', \<lparr>assoc_type = HAS_MANY, target = LazyTarget (Some ''Comment'')\<rparr>),
         (''ghost'', \<lparr>assoc_type = HAS_MANY, target = LazyTarget None\<rparr>)]
      else [])"

definition sample_validations :: "ctor \<Rightarrow> string \<Rightarrow> validation list" where
  "sample_validations c key = (if c = ''User'' \<and> key = ''name'' then [not_empty] else [])"

definition sample :: metadata where
  "sample = \<lparr>getAttributes = sample_attributes, getAssociations = sample_associations,
     getAttributeValidations = sample_validations, DATE = SAMPLE_DATE\<rparr>"

section \<open>The loop of validate in closed form\<close>










lemma map_of_full_report_absent:
  "key \<notin> fst ` set attrs \<Longrightarrow> map_of (full_report outcome attrs) key = None"
  by (force simp: full_report_def map_of_eq_None_iff)

section \<open>Calls and errors of one attribute\<close>



lemma type_validation_value:
  "fst (type_validation key attr v) =
     (if type_validate (attr_type attr) \<noteq> None \<and> isNil v \<and> default_truthy (defaultValue attr)
      then resolve_default (defaultValue attr) else v)"
  by (auto simp: type_validation_def Let_def split: option.splits)







section \<open>Comprehensive reporting\<close>



section \<open>Required attributes\<close>







section \<open>Defaults in type validation\<close>




text \<open>
  The test of the default in \<open>validate\<close> is its truthiness: a default such as \<open>0\<close>,
  \<open>false\<close> or the empty string is not substituted, and the validators receive the nil
  value.
\<close>

lemma falsy_default_is_not_substituted:
  "isNil v \<Longrightarrow> \<not> default_truthy (defaultValue attr) \<Longrightarrow> fst (type_validation key attr v) = v"
  by (simp add: type_validation_value)

section \<open>Facts about the helpers\<close>

declare serialize.simps [simp del] deserialize.simps [simp del]

lemma get_prop_JObj [simp]: "get_prop (JObj fs) key = Inr (get_field fs key)"
  by (simp add: get_field_def)

lemma get_prop_nil [simp]:
  "get_prop JUndefined key = Inl (TypeError ''Cannot read properties of undefined'')"
  "get_prop JNull key = Inl (TypeError ''Cannot read properties of null'')"
  by simp_all

declare get_prop.simps [simp del]

lemma sample_names_plain [simp]:
  "plain_name ''name''" "plain_name ''joined''" "plain_name ''nick''" "plain_name ''role''"
  "plain_name ''text''" "plain_name ''title''"
  by (simp_all add: plain_name_def)

lemma pick_path_plain:
  "plain_name key \<Longrightarrow>
   pick_path object result key =
     (case map_of object key of None \<Rightarrow> result | Some v \<Rightarrow> AList.update key v result)"
  by (auto simp: pick_path_def plain_name_def castPath_def isKey_def hasIn_def baseGet_def
      baseSet_def has_prop_def read_prop_def get_field_def Let_def split: option.splits)






text \<open>For names without path syntax \<open>_.pick\<close> is the selection of the own properties
  under the registered keys, which is how the concrete instances below are computed.\<close>

lemma pick_Cons_plain:
  "plain_name k \<Longrightarrow>
   foldl (pick_path fs) r (k # ks) =
     foldl (pick_path fs) (case map_of fs k of None \<Rightarrow> r | Some v \<Rightarrow> AList.update k v r) ks"
  by (simp add: pick_path_plain)


lemma map_of_update: "map_of (AList.update k v al) k' = (if k' = k then Some v else map_of al k')"
  by (simp add: AList.update_conv')

lemma get_field_update:
  "get_field (AList.update k v al) k' = (if k' = k then v else get_field al k')"
  by (simp add: get_field_def map_of_update)

lemma sequence_Cons:
  "sequence (r # rs) =
     (case r of Inl e \<Rightarrow> Inl e
      | Inr x \<Rightarrow> (case sequence rs of Inl e \<Rightarrow> Inl e | Inr xs \<Rightarrow> Inr (x # xs)))"
  by (cases r) simp_all

lemma sequence_map_Inl:
  "sequence (map f xs) = Inl e \<Longrightarrow> \<exists>x \<in> set xs. f x = Inl e"
  by (induction xs) (auto simp: sequence_Cons split: sum.splits)


section \<open>Facts about the loop of serialize\<close>

lemma serialize_assocs_Cons:
  "serialize_assocs md ((key, assoc) # rest) inst d result =
     (case get_prop inst key of
        Inl e \<Rightarrow> Inl e
      | Inr v \<Rightarrow>
          if isNil v then serialize_assocs md rest inst d result
          else
            (case resolve_target (target assoc) of
               None \<Rightarrow>
                 Inl (Error (''Cannot serialize because association '' @ key @ '' is not defined''))
             | Some tgt \<Rightarrow>
                 if d \<ge> 0
                 then (case serialize_value md assoc tgt v d of
                         Inl e \<Rightarrow> Inl e
                       | Inr x \<Rightarrow> serialize_assocs md rest inst d (AList.update key x result))
                 else serialize_assocs md rest inst d result))"
  by (simp add: serialize_value_def split: sum.splits option.splits jsval.splits)


declare serialize_assocs.simps(2) [simp del]


lemma serialize_assocs_shallow:
  "d < 0 \<Longrightarrow>
   serialize_assocs md assocs (JObj fs) d result =
     (case unresolved_assocs fs assocs of
        [] \<Rightarrow> Inr result
      | (key, assoc) # rest \<Rightarrow>
          Inl (Error (''Cannot serialize because association '' @ key @ '' is not defined'')))"
  by (induction assocs)
     (auto simp: unresolved_assocs_def serialize_assocs_Cons split: option.splits if_splits)


lemma serialize_assocs_append:
  "serialize_assocs md (pre @ rest) inst d result =
     (case serialize_assocs md pre inst d result of
        Inl e \<Rightarrow> Inl e
      | Inr r \<Rightarrow> serialize_assocs md rest inst d r)"
proof (induction pre arbitrary: result)
  case Nil
  then show ?case by simp
next
  case (Cons ka pre)
  obtain key assoc where ka: "ka = (key, assoc)" by (cases ka)
  show ?case unfolding ka
    by (simp add: serialize_assocs_Cons Cons.IH split: sum.splits option.splits)
qed

lemma serialize_assocs_preserves:
  "serialize_assocs md assocs inst d result = Inr r \<Longrightarrow> key \<notin> fst ` set assocs \<Longrightarrow>
   map_of r key = map_of result key"
proof (induction assocs arbitrary: result)
  case Nil
  then show ?case by simp
next
  case (Cons ka assocs)
  obtain k assoc where ka: "ka = (k, assoc)" by (cases ka)
  have nk: "key \<noteq> k" and notin: "key \<notin> fst ` set assocs" using Cons.prems(2) ka by auto
  from Cons.prems(1) consider
      (skip) "serialize_assocs md assocs inst d result = Inr r"
    | (expand) x where "serialize_assocs md assocs inst d (AList.update k x result) = Inr r"
    unfolding ka by (auto simp: serialize_assocs_Cons split: sum.splits option.splits if_splits)
  then show ?case
  proof cases
    case skip
    then show ?thesis using Cons.IH[OF _ notin] by simp
  next
    case expand
    then show ?thesis using Cons.IH[OF _ notin, of "AList.update k x result"] nk
      by (simp add: map_of_update)
  qed
qed

section \<open>The keys of a serialized object\<close>




section \<open>Facts about the loop of deserialize\<close>

lemma deserialize_assocs_Cons:
  "deserialize_assocs md ((key, assoc) # rest) data d v inst =
     (if isNil (get_field data key) then deserialize_assocs md rest data d v inst
      else
        (case resolve_target (target assoc) of
           None \<Rightarrow>
             Inl (Error (''Cannot deserialize because association '' @ key @ '' is not defined''))
         | Some tgt \<Rightarrow>
             if d \<ge> 0
             then (case deserialize_value md assoc tgt (get_field data key) d v of
                     Inl e \<Rightarrow> Inl e
                   | Inr x \<Rightarrow> deserialize_assocs md rest data d v (AList.update key x inst))
             else deserialize_assocs md rest data d v inst))"
  by (simp add: deserialize_value_def Let_def split: sum.splits option.splits jsval.splits)

declare deserialize_assocs.simps(2) [simp del]

lemma deserialize_assocs_shallow:
  "d < 0 \<Longrightarrow>
   deserialize_assocs md assocs data d v inst =
     (case unresolved_assocs data assocs of
        [] \<Rightarrow> Inr inst
      | (key, assoc) # rest \<Rightarrow>
          Inl (Error (''Cannot deserialize because association '' @ key @ '' is not defined'')))"
  by (induction assocs)
     (auto simp: unresolved_assocs_def deserialize_assocs_Cons split: option.splits if_splits)

lemma deserialize_assocs_append:
  "deserialize_assocs md (pre @ rest) data d v inst =
     (case deserialize_assocs md pre data d v inst of
        Inl e \<Rightarrow> Inl e
      | Inr i \<Rightarrow> deserialize_assocs md rest data d v i)"
proof (induction pre arbitrary: inst)
  case Nil
  then show ?case by simp
next
  case (Cons ka pre)
  obtain key assoc where ka: "ka = (key, assoc)" by (cases ka)
  show ?case unfolding ka
    by (simp add: deserialize_assocs_Cons Cons.IH split: sum.splits option.splits)
qed

lemma deserialize_assocs_preserves:
  "deserialize_assocs md assocs data d v inst = Inr i \<Longrightarrow> key \<notin> fst ` set assocs \<Longrightarrow>
   map_of i key = map_of inst key"
proof (induction assocs arbitrary: inst)
  case Nil
  then show ?case by simp
next
  case (Cons ka assocs)
  obtain k assoc where ka: "ka = (k, assoc)" by (cases ka)
  have nk: "key \<noteq> k" and notin: "key \<notin> fst ` set assocs" using Cons.prems(2) ka by auto
  from Cons.prems(1) consider
      (skip) "deserialize_assocs md assocs data d v inst = Inr i"
    | (expand) x where "deserialize_assocs md assocs data d v (AList.update k x inst) = Inr i"
    unfolding ka by (auto simp: deserialize_assocs_Cons split: sum.splits option.splits if_splits)
  then show ?case
  proof cases
    case skip
    then show ?thesis using Cons.IH[OF _ notin] by simp
  next
    case expand
    then show ?thesis using Cons.IH[OF _ notin, of "AList.update k x inst"] nk
      by (simp add: map_of_update)
  qed
qed

lemma unresolved_assocs_hd:
  assumes "(key, assoc) \<in> set assocs" "\<not> isNil (get_field fs key)"
    "resolve_target (target assoc) = None"
  shows "\<exists>k a rest. unresolved_assocs fs assocs = (k, a) # rest"
proof -
  have "(key, assoc) \<in> set (unresolved_assocs fs assocs)"
    using assms by (simp add: unresolved_assocs_def)
  then show ?thesis by (cases "unresolved_assocs fs assocs") auto
qed

section \<open>Definition errors come before the depth bound\<close>

text \<open>
  Claim C10. In the loops of \<open>serialize\<close> and \<open>deserialize\<close>, an association with a
  non-nil value whose target resolves to no constructor raises the definition error
  whatever the depth is: the target is resolved and checked before the depth bound is
  looked at. So with the depth option at 0 or below, where no association is expanded,
  the call still fails, with the definition error of the first such association.
\<close>

theorem definition_error_before_depth:
  assumes "(key, assoc) \<in> set (getAssociations md this)"
    and "\<not> isNil (get_field fs key)"
    and "resolve_target (target assoc) = None"
  shows
    "(\<forall>d rest result.
        serialize_assocs md ((key, assoc) # rest) (JObj fs) d result =
          Inl (Error (''Cannot serialize because association '' @ key @ '' is not defined''))) \<and>
     (\<forall>d v rest inst.
        deserialize_assocs md ((key, assoc) # rest) fs d v inst =
          Inl (Error (''Cannot deserialize because association '' @ key @ '' is not defined''))) \<and>
     (option_associations sopts \<and> option_depth sopts \<le> 0 \<longrightarrow>
        serialize md this (JObj fs) sopts =
          Inl (Error (''Cannot serialize because association '' @
                 fst (hd (unresolved_assocs fs (getAssociations md this))) @ '' is not defined''))) \<and>
     (option_associations dopts \<and> option_depth dopts \<le> 0 \<longrightarrow>
        deserialize md this (JObj fs) dopts =
          Inl (Error (''Cannot deserialize because association '' @
                 fst (hd (unresolved_assocs fs (getAssociations md this))) @ '' is not defined'')))"
proof -
  obtain k a more where u: "unresolved_assocs fs (getAssociations md this) = (k, a) # more"
    using unresolved_assocs_hd[OF assms] by blast
  have s: "serialize md this (JObj fs) sopts =
      Inl (Error (''Cannot serialize because association '' @ k @ '' is not defined''))"
    if "option_associations sopts" "option_depth sopts \<le> 0"
    using that u serialize_assocs_shallow[of "option_depth sopts - 1" md "getAssociations md this" fs]
    by (simp add: serialize.simps)
  have d: "deserialize md this (JObj fs) dopts =
      Inl (Error (''Cannot deserialize because association '' @ k @ '' is not defined''))"
    if "option_associations dopts" "option_depth dopts \<le> 0"
    using that u deserialize_assocs_shallow[of "option_depth dopts - 1" md "getAssociations md this" fs]
    by (simp add: deserialize.simps)
  show ?thesis using assms(2,3) s d u
    by (simp add: serialize_assocs_Cons deserialize_assocs_Cons)
qed

theorem definition_error_before_depth_witness:
  "serialize sample ''Post'' (JObj [(''title'', JStr ''t''), (''ghost'', JArr [])])
     \<lparr>associations = Some True, depth = Some 0\<rparr> =
     Inl (Error ''Cannot serialize because association ghost is not defined'') \<and>
   deserialize sample ''Post'' (JObj [(''title'', JStr ''t''), (''ghost'', JArr [])])
     \<lparr>associations = Some True, depth = Some (- 1), opt_validate = None\<rparr> =
     Inl (Error ''Cannot deserialize because association ghost is not defined'')"
  using definition_error_before_depth[of "''ghost''"
      "\<lparr>assoc_type = HAS_MANY, target = LazyTarget None\<rparr>" sample "''Post''"
      "[(''title'', JStr ''t''), (''ghost'', JArr [])]"
      "\<lparr>associations = Some True, depth = Some 0\<rparr>"
      "\<lparr>associations = Some True, depth = Some (- 1), opt_validate = None\<rparr>"]
  by (simp add: sample_def sample_associations_def get_field_def unresolved_assocs_def
      option_associations_def option_depth_def)

section \<open>Errors of serialize\<close>

lemma get_prop_error: "get_prop v key = Inl e \<Longrightarrow> \<not> isValidationError e"
  by (cases v) (auto simp: get_prop.simps split: if_splits)

lemma serialize_value_error:
  assumes "serialize_value md assoc tgt v d = Inl e"
    and "\<And>item. serialize md tgt item \<lparr>associations = Some True, depth = Some d\<rparr> = Inl e
           \<Longrightarrow> \<not> isValidationError e"
  shows "\<not> isValidationError e"
  using assms
  by (auto simp: serialize_value_def split: if_splits jsval.splits sum.splits
      dest!: sequence_map_Inl)

lemma serialize_assocs_error:
  assumes "serialize_assocs md assocs inst d result = Inl e"
    and "\<And>tgt item. d \<ge> 0 \<Longrightarrow>
           serialize md tgt item \<lparr>associations = Some True, depth = Some d\<rparr> = Inl e
           \<Longrightarrow> \<not> isValidationError e"
  shows "\<not> isValidationError e"
  using assms(1)
proof (induction assocs arbitrary: result)
  case Nil
  then show ?case by simp
next
  case (Cons ka assocs)
  obtain key assoc where ka: "ka = (key, assoc)" by (cases ka)
  from Cons.prems consider
      (access) "get_prop inst key = Inl e"
    | (unresolved) "e = Error (''Cannot serialize because association '' @ key @ '' is not defined'')"
    | (nested) tgt v where "d \<ge> 0" "serialize_value md assoc tgt v d = Inl e"
    | (later) result' where "serialize_assocs md assocs inst d result' = Inl e"
    unfolding ka
    by (auto simp: serialize_assocs_Cons split: sum.splits option.splits if_splits)
  then show ?case
  proof cases
    case access
    then show ?thesis by (rule get_prop_error)
  next
    case unresolved
    then show ?thesis by simp
  next
    case nested
    then show ?thesis using serialize_value_error[OF nested(2)] assms(2)[OF nested(1)] by blast
  next
    case later
    then show ?thesis by (rule Cons.IH)
  qed
qed

lemma serialize_error:
  "serialize md this inst opts = Inl e \<Longrightarrow> \<not> isValidationError e"
proof (induction "nat (option_depth opts)" arbitrary: this inst opts rule: less_induct)
  case less
  show ?case
  proof (cases "option_associations opts")
    case False
    then show ?thesis using less.prems by (simp add: serialize.simps)
  next
    case True
    then have l: "serialize_assocs md (getAssociations md this) inst (option_depth opts - 1)
        (pick (toPlainObject inst) (Object_keys (getAttributes md this))) = Inl e"
      using less.prems by (simp add: serialize.simps)
    show ?thesis
    proof (rule serialize_assocs_error[OF l])
      fix tgt item
      assume d: "0 \<le> option_depth opts - 1"
        and n: "serialize md tgt item \<lparr>associations = Some True, depth = Some (option_depth opts - 1)\<rparr> = Inl e"
      have "nat (option_depth \<lparr>associations = Some True, depth = Some (option_depth opts - 1)\<rparr>)
              < nat (option_depth opts)"
        using d by (simp add: option_depth_def)
      from less.hyps[OF this n] show "\<not> isValidationError e" .
    qed
  qed
qed


section \<open>Unresolved association targets\<close>

text \<open>
  Claim C9 (amended). With the associations option enabled, an association that holds a
  non-nil value while its target resolves to no constructor makes both calls fail.
  \<open>serialize\<close> fails with an error that is not a \<open>ValidationError\<close>. \<open>deserialize\<close>
  fails before the instance's own validation runs: with the definition error, a plain
  \<open>Error\<close> that carries no report, unless the loop has already failed on an association
  registered before this one, whose error is then the result.
\<close>

theorem unresolved_target_is_fatal:
  assumes "getAssociations md this = pre @ (key, assoc) # post"
    and "\<not> isNil (get_field fs key)"
    and "resolve_target (target assoc) = None"
  shows
    "(option_associations sopts \<longrightarrow>
        (\<exists>e. serialize md this (JObj fs) sopts = Inl e \<and> \<not> isValidationError e) \<and>
        serialize md this (JObj fs) sopts =
          (case serialize_assocs md pre (JObj fs) (option_depth sopts - 1)
                  (pick fs (Object_keys (getAttributes md this))) of
             Inl e \<Rightarrow> Inl e
           | Inr r \<Rightarrow>
               Inl (Error (''Cannot serialize because association '' @ key @ '' is not defined'')))) \<and>
     (option_associations dopts \<longrightarrow>
        deserialize md this (JObj fs) dopts =
          (case deserialize_assocs md pre fs (option_depth dopts - 1) (option_validate dopts)
                  (convert_dates md (getAttributes md this)
                     (Model_new (pick fs (Object_keys (getAttributes md this))))) of
             Inl e \<Rightarrow> Inl e
           | Inr i \<Rightarrow>
               Inl (Error (''Cannot deserialize because association '' @ key @ '' is not defined''))))"
proof -
  have s: "serialize md this (JObj fs) sopts =
          (case serialize_assocs md pre (JObj fs) (option_depth sopts - 1)
                  (pick fs (Object_keys (getAttributes md this))) of
             Inl e \<Rightarrow> Inl e
           | Inr r \<Rightarrow>
               Inl (Error (''Cannot serialize because association '' @ key @ '' is not defined'')))"
    if "option_associations sopts"
    using that assms
    by (simp add: serialize.simps serialize_assocs_append serialize_assocs_Cons split: sum.splits)
  have s': "\<exists>e. serialize md this (JObj fs) sopts = Inl e \<and> \<not> isValidationError e"
    if a: "option_associations sopts"
  proof -
    obtain e where e: "serialize md this (JObj fs) sopts = Inl e"
      using s[OF a] by (auto split: sum.splits)
    then show ?thesis using serialize_error[OF e] by blast
  qed
  have d: "deserialize md this (JObj fs) dopts =
          (case deserialize_assocs md pre fs (option_depth dopts - 1) (option_validate dopts)
                  (convert_dates md (getAttributes md this)
                     (Model_new (pick fs (Object_keys (getAttributes md this))))) of
             Inl e \<Rightarrow> Inl e
           | Inr i \<Rightarrow>
               Inl (Error (''Cannot deserialize because association '' @ key @ '' is not defined'')))"
    if "option_associations dopts"
    using that assms
    by (simp add: deserialize.simps deserialize_assocs_append deserialize_assocs_Cons Let_def
        split: sum.splits)
  show ?thesis using s s' d by blast
qed

theorem unresolved_target_is_fatal_witness:
  "(\<exists>e. serialize sample ''Post'' (JObj [(''title'', JStr ''t''), (''ghost'', JNum 1)])
           default_SerializeOptions = Inl e \<and> \<not> isValidationError e) \<and>
   serialize sample ''Post'' (JObj [(''title'', JStr ''t''), (''ghost'', JNum 1)])
     default_SerializeOptions =
     Inl (Error ''Cannot serialize because association ghost is not defined'') \<and>
   deserialize sample ''Post'' (JObj [(''title'', JStr ''t''), (''ghost'', JNum 1)])
     default_DeserializeOptions =
     Inl (Error ''Cannot deserialize because association ghost is not defined'')"
  using unresolved_target_is_fatal[of sample "''Post''"
      "[(''comments'', \<lparr>assoc_type = HAS_MANY, target = LazyTarget (Some ''Comment'')\<rparr>)]"
      "''ghost''" "\<lparr>assoc_type = HAS_MANY, target = LazyTarget None\<rparr>" "[]"
      "[(''title'', JStr ''t''), (''ghost'', JNum 1)]"
      default_SerializeOptions default_DeserializeOptions]
  by (simp add: sample_def sample_associations_def get_field_def option_associations_def
      default_SerializeOptions_def default_DeserializeOptions_def
      serialize_assocs_Cons deserialize_assocs_Cons)

theorem unresolved_target_behind_invalid_association_counterexample:
  "get_field [(''title'', JStr ''t''), (''comments'', JArr [JObj []]), (''ghost'', JNum 1)] ''ghost''
     = JNum 1 \<and>
   map_of (getAssociations sample ''Post'') ''ghost''
     = Some \<lparr>assoc_type = HAS_MANY, target = LazyTarget None\<rparr> \<and>
   deserialize sample ''Post''
     (JObj [(''title'', JStr ''t''), (''comments'', JArr [JObj []]), (''ghost'', JNum 1)])
     default_DeserializeOptions =
     Inl (ValidationError ''Comment'' ''Validation error''
            [(''text'', [(''attribute.required'', ''Value is required''),
                         (''attribute.string'', ''Not a string'')])])"
  by (simp add: deserialize.simps deserialize_assocs_Cons deserialize_value_def
      default_DeserializeOptions_def option_depth_def option_associations_def option_validate_def
      sample_def sample_attributes_def sample_associations_def sample_validations_def
      Object_keys_def pick_def pick_path_plain get_field_def Model_new_def
      validate_def validate_traced_def validate_attr_def type_validation_def STRING_def
      default_ValidationOptions_def option_required_def add_errors_def Let_def)

section \<open>The fallback for to-many associations\<close>

lemma distinct_middle:
  "distinct (map fst (pre @ (key, assoc) # post)) \<Longrightarrow>
   key \<notin> fst ` set pre \<and> key \<notin> fst ` set post"
  by auto

lemma serialize_assocs_at:
  assumes "serialize_assocs md (pre @ (key, assoc) # post) (JObj fs) d result = Inr r"
    and "distinct (map fst (pre @ (key, assoc) # post))"
    and "\<not> isNil (get_field fs key)"
    and "d \<ge> 0"
  shows "\<exists>tgt x. resolve_target (target assoc) = Some tgt \<and>
           serialize_value md assoc tgt (get_field fs key) d = Inr x \<and> map_of r key = Some x"
proof -
  have notin: "key \<notin> fst ` set post" using distinct_middle[OF assms(2)] by simp
  obtain r1 where r1: "serialize_assocs md ((key, assoc) # post) (JObj fs) d r1 = Inr r"
    using assms(1) by (auto simp: serialize_assocs_append split: sum.splits)
  then obtain tgt x where t: "resolve_target (target assoc) = Some tgt"
    and x: "serialize_value md assoc tgt (get_field fs key) d = Inr x"
    and rest: "serialize_assocs md post (JObj fs) d (AList.update key x r1) = Inr r"
    using assms(3,4) by (auto simp: serialize_assocs_Cons split: sum.splits option.splits)
  have "map_of r key = Some x"
    using serialize_assocs_preserves[OF rest notin] by (simp add: map_of_update)
  then show ?thesis using t x by blast
qed

lemma deserialize_assocs_at:
  assumes "deserialize_assocs md (pre @ (key, assoc) # post) fs d v inst = Inr i"
    and "distinct (map fst (pre @ (key, assoc) # post))"
    and "\<not> isNil (get_field fs key)"
    and "d \<ge> 0"
  shows "\<exists>tgt x. resolve_target (target assoc) = Some tgt \<and>
           deserialize_value md assoc tgt (get_field fs key) d v = Inr x \<and> map_of i key = Some x"
proof -
  have notin: "key \<notin> fst ` set post" using distinct_middle[OF assms(2)] by simp
  obtain i1 where i1: "deserialize_assocs md ((key, assoc) # post) fs d v i1 = Inr i"
    using assms(1) by (auto simp: deserialize_assocs_append split: sum.splits)
  then obtain tgt x where t: "resolve_target (target assoc) = Some tgt"
    and x: "deserialize_value md assoc tgt (get_field fs key) d v = Inr x"
    and rest: "deserialize_assocs md post fs d v (AList.update key x i1) = Inr i"
    using assms(3,4) by (auto simp: deserialize_assocs_Cons split: sum.splits option.splits)
  have "map_of i key = Some x"
    using deserialize_assocs_preserves[OF rest notin] by (simp add: map_of_update)
  then show ?thesis using t x by blast
qed

lemma serialize_value_not_array:
  "to_many assoc \<Longrightarrow> \<not> isArray v \<Longrightarrow> serialize_value md assoc tgt v d = Inr (JArr [])"
  by (cases v) (auto simp: serialize_value_def to_many_def)

lemma deserialize_value_not_array:
  "to_many assoc \<Longrightarrow> \<not> isArray val \<Longrightarrow> deserialize_value md assoc tgt val d v = Inr (JArr [])"
  by (cases val) (auto simp: deserialize_value_def to_many_def)

text \<open>
  Claim C5 (amended). For a registered to-many association whose target resolves, and a
  non-nil value under its key that is no array: the loop of \<open>deserialize\<close>, at any depth
  that expands associations, assigns the empty array under the key and goes on to the
  next association without raising anything, and whenever \<open>deserialize\<close> with default
  options returns an instance (no other association and no validation fails), the
  instance holds the empty array under that key. Likewise for \<open>serialize\<close> and its
  result.
\<close>

theorem to_many_fallback:
  assumes "getAssociations md this = pre @ (key, assoc) # post"
    and "distinct (Object_keys (getAssociations md this))"
    and "to_many assoc"
    and "resolve_target (target assoc) = Some tgt"
    and "\<not> isNil (get_field fs key)"
    and "\<not> isArray (get_field fs key)"
  shows
    "(\<forall>d v inst. d \<ge> 0 \<longrightarrow>
        deserialize_assocs md ((key, assoc) # post) fs d v inst =
        deserialize_assocs md post fs d v (AList.update key (JArr []) inst)) \<and>
     (\<forall>inst. deserialize md this (JObj fs) default_DeserializeOptions = Inr inst \<longrightarrow>
        get_field inst key = JArr []) \<and>
     (\<forall>d result. d \<ge> 0 \<longrightarrow>
        serialize_assocs md ((key, assoc) # post) (JObj fs) d result =
        serialize_assocs md post (JObj fs) d (AList.update key (JArr []) result)) \<and>
     (\<forall>r. serialize md this (JObj fs) default_SerializeOptions = Inr r \<longrightarrow>
        get_field r key = JArr [])"
proof -
  have dist: "distinct (map fst (pre @ (key, assoc) # post))"
    using assms(1,2) by (simp add: Object_keys_def)
  have dstep: "\<forall>d v inst. d \<ge> 0 \<longrightarrow>
        deserialize_assocs md ((key, assoc) # post) fs d v inst =
        deserialize_assocs md post fs d v (AList.update key (JArr []) inst)"
    using assms(3-6) by (simp add: deserialize_assocs_Cons deserialize_value_not_array)
  have sstep: "\<forall>d result. d \<ge> 0 \<longrightarrow>
        serialize_assocs md ((key, assoc) # post) (JObj fs) d result =
        serialize_assocs md post (JObj fs) d (AList.update key (JArr []) result)"
    using assms(3-6) by (simp add: serialize_assocs_Cons serialize_value_not_array)
  have dres: "get_field inst key = JArr []"
    if "deserialize md this (JObj fs) default_DeserializeOptions = Inr inst" for inst
  proof -
    from that obtain i where
      "deserialize_assocs md (pre @ (key, assoc) # post) fs 0 True i = Inr inst"
      using assms(1)
      by (auto simp: deserialize.simps default_DeserializeOptions_def option_depth_def
          option_associations_def option_validate_def Let_def split: sum.splits if_splits)
    from deserialize_assocs_at[OF this dist assms(5)] show ?thesis
      using assms(3,4,6) by (auto simp: deserialize_value_not_array get_field_def)
  qed
  have sres: "get_field r key = JArr []"
    if "serialize md this (JObj fs) default_SerializeOptions = Inr r" for r
  proof -
    from that obtain r0 where
      "serialize_assocs md (pre @ (key, assoc) # post) (JObj fs) 0 r0 = Inr r"
      using assms(1)
      by (auto simp: serialize.simps default_SerializeOptions_def option_depth_def
          option_associations_def Let_def)
    from serialize_assocs_at[OF this dist assms(5)] show ?thesis
      using assms(3,4,6) by (auto simp: serialize_value_not_array get_field_def)
  qed
  show ?thesis using dstep sstep dres sres by blast
qed

theorem to_many_fallback_witness:
  "deserialize sample ''Post'' (JObj [(''title'', JStr ''t''), (''comments'', JStr ''not-an-array'')])
     default_DeserializeOptions =
     Inr [(''title'', JStr ''t''), (''comments'', JArr [])] \<and>
   get_field [(''title'', JStr ''t''), (''comments'', JArr [])] ''comments'' = JArr [] \<and>
   serialize sample ''Post'' (JObj [(''title'', JStr ''t''), (''comments'', JStr ''not-an-array'')])
     default_SerializeOptions =
     Inr [(''title'', JStr ''t''), (''comments'', JArr [])]"
proof -
  have d: "deserialize sample ''Post''
      (JObj [(''title'', JStr ''t''), (''comments'', JStr ''not-an-array'')])
      default_DeserializeOptions = Inr [(''title'', JStr ''t''), (''comments'', JArr [])]"
    by (simp add: deserialize.simps deserialize_assocs_Cons deserialize_value_def
      default_DeserializeOptions_def option_depth_def option_associations_def option_validate_def
      sample_def sample_attributes_def sample_associations_def sample_validations_def
      Object_keys_def pick_def pick_path_plain get_field_def Model_new_def
      validate_def validate_traced_def validate_attr_def type_validation_def STRING_def SAMPLE_DATE_def
      default_ValidationOptions_def option_required_def add_errors_def Let_def)
  have s: "serialize sample ''Post''
      (JObj [(''title'', JStr ''t''), (''comments'', JStr ''not-an-array'')])
      default_SerializeOptions = Inr [(''title'', JStr ''t''), (''comments'', JArr [])]"
    by (simp add: serialize.simps serialize_assocs_Cons serialize_value_def
      default_SerializeOptions_def option_depth_def option_associations_def
      sample_def sample_attributes_def sample_associations_def
      Object_keys_def pick_def pick_path_plain get_field_def)
  show ?thesis
    using d s to_many_fallback[of sample "''Post''" "[]" "''comments''"
      "\<lparr>assoc_type = HAS_MANY, target = LazyTarget (Some ''Comment'')\<rparr>"
      "[(''ghost'', \<lparr>assoc_type = HAS_MANY, target = LazyTarget None\<rparr>)]"
      "''Comment''" "[(''title'', JStr ''t''), (''comments'', JStr ''not-an-array'')]"]
    by (simp add: sample_def sample_associations_def Object_keys_def to_many_def get_field_def)
qed

theorem to_many_fallback_counterexample:
  "map_of (getAssociations sample ''Post'') ''ghost''
     = Some \<lparr>assoc_type = HAS_MANY, target = LazyTarget None\<rparr> \<and>
   deserialize sample ''Post'' (JObj [(''title'', JStr ''t''), (''ghost'', JStr ''not-an-array'')])
     default_DeserializeOptions =
     Inl (Error ''Cannot deserialize because association ghost is not defined'') \<and>
   map_of (getAssociations sample ''Post'') ''comments''
     = Some \<lparr>assoc_type = HAS_MANY, target = LazyTarget (Some ''Comment'')\<rparr> \<and>
   deserialize sample ''Post'' (JObj [(''comments'', JStr ''not-an-array'')])
     default_DeserializeOptions =
     Inl (ValidationError ''Post'' ''Validation error''
            [(''title'', [(''attribute.required'', ''Value is required''),
                          (''attribute.string'', ''Not a string'')])])"
  by (simp add: deserialize.simps deserialize_assocs_Cons deserialize_value_def
      default_DeserializeOptions_def option_depth_def option_associations_def option_validate_def
      sample_def sample_attributes_def sample_associations_def sample_validations_def
      Object_keys_def pick_def pick_path_plain get_field_def Model_new_def
      validate_def validate_traced_def validate_attr_def type_validation_def STRING_def SAMPLE_DATE_def
      default_ValidationOptions_def option_required_def add_errors_def Let_def)

section \<open>The depth bound\<close>








section \<open>Round trip without associations\<close>











end
